theory Spec2Isabelle
  imports Main
begin

section \<open>The Go library calls used by the server\<close>

text \<open>
  The server is two near-duplicate programs (\<open>main.go\<close>, first and second file). Both
  decode the \<open>data\<close> form field with \<open>strings.Split\<close>, \<open>strconv.ParseInt\<close> and
  \<open>strconv.ParseFloat\<close>, after removing blanks with a \<open>strings.Replacer\<close>. Go strings
  are byte sequences, so a string is a \<open>char list\<close>.
\<close>

subsection \<open>Run-time panics\<close>

text \<open>
  Indexing a slice out of range and dereferencing a nil pointer panic. \<open>index xs i\<close> is
  the Go expression \<open>xs[i]\<close>.
\<close>

datatype panic = IndexOutOfRange nat nat | NilPointerDereference

definition index :: "'a list \<Rightarrow> nat \<Rightarrow> panic + 'a" where
  "index xs i = (if i < length xs then Inr (xs ! i) else Inl (IndexOutOfRange i (length xs)))"

subsection \<open>strings.Split with a one-byte separator\<close>

text \<open>
  \<open>strings.Split(s, sep)\<close> cuts \<open>s\<close> at every occurrence of \<open>sep\<close>; a string without
  the separator (the empty string too) gives the one-element slice holding \<open>s\<close>. The
  server only splits at the single bytes \<open>|\<close> and \<open>,\<close>.
\<close>

fun Split :: "string \<Rightarrow> char \<Rightarrow> string list" where
  "Split [] sep = [[]]"
| "Split (c # cs) sep =
     (if c = sep then [] # Split cs sep
      else (case Split cs sep of [] \<Rightarrow> [[c]] | p # ps \<Rightarrow> (c # p) # ps))"

subsection \<open>strings.NewReplacer on one-byte patterns\<close>

text \<open>
  When every pattern is one byte long, \<open>Replace\<close> walks over the bytes of the argument
  and writes the replacement of each byte that has one, the byte itself otherwise. The
  first pair of a repeated pattern wins. \<open>replacer\<close> is the replacer both handlers build:
  space, tab, newline, carriage return and NUL, each replaced by the empty string.
\<close>

definition Replace :: "(char \<times> string) list \<Rightarrow> string \<Rightarrow> string" where
  "Replace oldnew s =
     concat (map (\<lambda>b. case map_of oldnew b of None \<Rightarrow> [b] | Some n \<Rightarrow> n) s)"

definition replacer :: "(char \<times> string) list" where
  "replacer = [(CHR '' '', ''''), (CHR 0x09, ''''), (CHR 0x0A, ''''), (CHR 0x0D, ''''),
               (CHR 0x00, '''')]"

subsection \<open>strconv.ParseInt(s, 10, 64)\<close>

text \<open>
  Every conversion error of \<open>strconv\<close> is a syntax error or a range error. A syntax error
  comes with the value 0; a range error comes with the largest value of the sign.
  \<open>ParseUint\<close> is the digit loop of \<open>strconv.ParseUint\<close> in base 10 with 64 bits: a byte
  that is not a decimal digit is a syntax error, an accumulator at or beyond
  \<open>cutoff\<close> or a wrapped addition is a range error.
\<close>

datatype NumError = ErrSyntax | ErrRange

definition maxUint64 :: int where
  "maxUint64 = 2 ^ 64 - 1"

definition cutoff :: int where
  "cutoff = maxUint64 div 10 + 1"

definition is_digit :: "char \<Rightarrow> bool" where
  "is_digit c =
     ((of_char (CHR ''0'') :: nat) \<le> of_char c \<and> (of_char c :: nat) \<le> of_char (CHR ''9''))"

text \<open>
  The accumulator \<open>n\<close> is a uint64, here an \<open>int\<close> with the wrap-around of the
  addition written out.
\<close>

fun ParseUint_loop :: "string \<Rightarrow> int \<Rightarrow> int \<times> NumError option" where
  "ParseUint_loop [] n = (n, None)"
| "ParseUint_loop (c # cs) n =
     (if \<not> is_digit c then (0, Some ErrSyntax)
      else let d = (of_char c :: int) - of_char (CHR ''0'') in
        if cutoff \<le> n then (maxUint64, Some ErrRange)
        else let n10 = n * 10; n1 = (n10 + d) mod 2 ^ 64 in
          if n1 < n10 \<or> maxUint64 < n1 then (maxUint64, Some ErrRange)
          else ParseUint_loop cs n1)"

definition ParseUint :: "string \<Rightarrow> int \<times> NumError option" where
  "ParseUint s = (if s = [] then (0, Some ErrSyntax) else ParseUint_loop s 0)"

definition ParseInt :: "string \<Rightarrow> int \<times> NumError option" where
  "ParseInt s =
     (case s of
        [] \<Rightarrow> (0, Some ErrSyntax)
      | c # cs \<Rightarrow>
          let neg = (c = CHR ''-'');
              s1 = (if c = CHR ''+'' \<or> c = CHR ''-'' then cs else s);
              (un, err) = ParseUint s1
          in if err \<noteq> None \<and> err \<noteq> Some ErrRange then (0, err)
             else if \<not> neg \<and> 2 ^ 63 \<le> un then (2 ^ 63 - 1, Some ErrRange)
             else if neg \<and> 2 ^ 63 < un then (- (2 ^ 63), Some ErrRange)
             else (if neg then - un else un, None))"

section \<open>The telemetry parser\<close>

text \<open>
  \<open>strconv.ParseFloat(s, 64)\<close> returns a float64 and an error. Binary floating point is
  outside this development, so the conversion is a parameter \<open>ParseFloat\<close> of every
  definition that calls it, into a type \<open>'f\<close> whose \<open>0\<close> is the zero value of float64.
\<close>

datatype error = errorString string

definition errors_New :: "string \<Rightarrow> error" where
  "errors_New text = errorString text"

text \<open>
  Log output: each call of \<open>log.Printf\<close> or \<open>log.Println\<close> appends one entry, the format
  string (without its final newline) and the arguments.
\<close>

datatype 'f arg = S string | I int | F 'f | E error | H "(string \<times> string list) list"

datatype 'f log_entry = Printf string "'f arg list" | Println "'f arg list"

text \<open>
  \<open>parseData\<close> (second file). The results are named, so when an index expression
  panics the deferred function sets \<open>err\<close> and the call returns the results assigned
  so far, the others still zero. The function takes the log and returns it extended.
\<close>

definition parseData_err :: error where
  "parseData_err = errors_New ''error parsing data''"

definition parseData ::
  "(string \<Rightarrow> ('f::zero) \<times> NumError option) \<Rightarrow> string \<Rightarrow> 'f log_entry list \<Rightarrow>
     (int \<times> 'f \<times> 'f \<times> 'f \<times> 'f \<times> 'f \<times> error option) \<times> 'f log_entry list" where
  "parseData ParseFloat data lg =
     (let lg1 = lg @ [Printf ''incoming data: %s'' [S data]];
          bodyArr = Split data (CHR ''|'')
      in case index bodyArr 0 of
           Inl p \<Rightarrow> ((0, 0, 0, 0, 0, 0, Some parseData_err), lg1)
         | Inr b0 \<Rightarrow>
     (let timestamp = fst (ParseInt b0)
      in case index bodyArr 1 of
           Inl p \<Rightarrow> ((timestamp, 0, 0, 0, 0, 0, Some parseData_err), lg1)
         | Inr b1 \<Rightarrow>
     (let hum = fst (ParseFloat b1)
      in case index bodyArr 2 of
           Inl p \<Rightarrow> ((timestamp, hum, 0, 0, 0, 0, Some parseData_err), lg1)
         | Inr b2 \<Rightarrow>
     (let temp = fst (ParseFloat b2)
      in case index bodyArr 3 of
           Inl p \<Rightarrow> ((timestamp, hum, temp, 0, 0, 0, Some parseData_err), lg1)
         | Inr b3 \<Rightarrow>
     (let acc = Split b3 (CHR '','')
      in case index acc 0 of
           Inl p \<Rightarrow> ((timestamp, hum, temp, 0, 0, 0, Some parseData_err), lg1)
         | Inr a0 \<Rightarrow>
     (let x = fst (ParseFloat a0)
      in case index acc 1 of
           Inl p \<Rightarrow> ((timestamp, hum, temp, x, 0, 0, Some parseData_err), lg1)
         | Inr a1 \<Rightarrow>
     (let y = fst (ParseFloat a1)
      in case index acc 2 of
           Inl p \<Rightarrow> ((timestamp, hum, temp, x, y, 0, Some parseData_err), lg1)
         | Inr a2 \<Rightarrow>
     (let z = fst (ParseFloat a2);
          lg2 = lg1 @ [Printf
            ''Timestamp: %d, Humidity: %f, Temperature: %f, Accelerometer: %f, %f, %f''
            [I timestamp, F hum, F temp, F x, F y, F z]]
      in ((timestamp, hum, temp, x, y, z, None), lg2)))))))))"

text \<open>
  The parsing statements of \<open>postSensorData\<close> in the first file (lines 120 to 129):
  the same calls, with no deferred recovery, so a panic leaves the parsing step.
\<close>

definition inlineParse ::
  "(string \<Rightarrow> ('f::zero) \<times> NumError option) \<Rightarrow> string \<Rightarrow>
     panic + (int \<times> 'f \<times> 'f \<times> 'f \<times> 'f \<times> 'f)" where
  "inlineParse ParseFloat data =
     (let bodyArr = Split data (CHR ''|'')
      in case index bodyArr 0 of Inl p \<Rightarrow> Inl p | Inr b0 \<Rightarrow>
     (let timestamp = fst (ParseInt b0)
      in case index bodyArr 1 of Inl p \<Rightarrow> Inl p | Inr b1 \<Rightarrow>
     (let hum = fst (ParseFloat b1)
      in case index bodyArr 2 of Inl p \<Rightarrow> Inl p | Inr b2 \<Rightarrow>
     (let temp = fst (ParseFloat b2)
      in case index bodyArr 3 of Inl p \<Rightarrow> Inl p | Inr b3 \<Rightarrow>
     (let acc = Split b3 (CHR '','')
      in case index acc 0 of Inl p \<Rightarrow> Inl p | Inr a0 \<Rightarrow>
     (let x = fst (ParseFloat a0)
      in case index acc 1 of Inl p \<Rightarrow> Inl p | Inr a1 \<Rightarrow>
     (let y = fst (ParseFloat a1)
      in case index acc 2 of Inl p \<Rightarrow> Inl p | Inr a2 \<Rightarrow>
     (let z = fst (ParseFloat a2)
      in Inr (timestamp, hum, temp, x, y, z)))))))))"

section \<open>The HTTP handlers\<close>

subsection \<open>Requests, responses and the database client\<close>

text \<open>
  A request as the handlers read it. \<open>ParseForm_err\<close> is the result of \<open>r.ParseForm()\<close>
  and \<open>Form\<close> is \<open>r.Form\<close> after that call. \<open>MultipartForm\<close> is the \<open>Value\<close> map of
  \<open>r.MultipartForm\<close> after the call \<open>r.ParseMultipartForm(r.ContentLength)\<close>, and \<open>None\<close>
  when that pointer is nil. \<open>Body_nil\<close> is \<open>r.Body == nil\<close>.
\<close>

record Request =
  Method :: string
  URL_Path :: string
  Header :: "(string \<times> string list) list"
  Body_nil :: bool
  ParseForm_err :: "error option"
  Form :: "string \<rightharpoonup> string list"
  MultipartForm :: "(string \<rightharpoonup> string list) option"

text \<open>A missing key of a Go map of slices reads as the nil slice.\<close>

definition Value :: "(string \<rightharpoonup> string list) \<Rightarrow> string \<Rightarrow> string list" where
  "Value m k = (case m k of None \<Rightarrow> [] | Some vs \<Rightarrow> vs)"

definition FormValue :: "Request \<Rightarrow> string \<Rightarrow> string" where
  "FormValue r k = (case Value (Form r) k of [] \<Rightarrow> [] | v # vs \<Rightarrow> v)"

text \<open>
  A point of the database client: \<open>AddTag\<close> and \<open>AddField\<close> append, \<open>SetTime\<close> stores
  the time, here the seconds given to \<open>time.Unix(timestamp, 0)\<close>.
\<close>

record 'f Point =
  Measurement :: string
  Tags :: "(string \<times> string) list"
  Fields :: "(string \<times> 'f) list"
  Time :: int

definition NewPointWithMeasurement :: "string \<Rightarrow> 'f Point" where
  "NewPointWithMeasurement m = \<lparr>Measurement = m, Tags = [], Fields = [], Time = 0\<rparr>"

definition AddTag :: "string \<Rightarrow> string \<Rightarrow> 'f Point \<Rightarrow> 'f Point" where
  "AddTag k v p = p\<lparr>Tags := Tags p @ [(k, v)]\<rparr>"

definition AddField :: "string \<Rightarrow> 'f \<Rightarrow> 'f Point \<Rightarrow> 'f Point" where
  "AddField k v p = p\<lparr>Fields := Fields p @ [(k, v)]\<rparr>"

definition time_Unix :: "int \<Rightarrow> int \<Rightarrow> int" where
  "time_Unix sec nsec = sec"

definition SetTime :: "int \<Rightarrow> 'f Point \<Rightarrow> 'f Point" where
  "SetTime t p = p\<lparr>Time := t\<rparr>"

text \<open>
  What a handler acts on: the response (\<open>status\<close> is \<open>None\<close> until the header is
  written), the log, and the argument list of every \<open>WritePoint\<close> call made. A handler
  returns or panics; the server answers a handler that returned without writing with
  status 200 and an empty body.
\<close>

record 'f state =
  status :: "nat option"
  body :: string
  logged :: "'f log_entry list"
  writes :: "'f Point list list"

datatype 'f outcome = Return "'f state" | Panic panic "'f state"

abbreviation StatusOK :: nat where "StatusOK \<equiv> 200"
abbreviation StatusBadRequest :: nat where "StatusBadRequest \<equiv> 400"
abbreviation StatusNotFound :: nat where "StatusNotFound \<equiv> 404"
abbreviation StatusInternalServerError :: nat where "StatusInternalServerError \<equiv> 500"

definition WriteHeader :: "nat \<Rightarrow> 'f state \<Rightarrow> 'f state" where
  "WriteHeader code st = (if status st = None then st\<lparr>status := Some code\<rparr> else st)"

definition Write :: "string \<Rightarrow> 'f state \<Rightarrow> 'f state" where
  "Write b st = (let st1 = WriteHeader StatusOK st in st1\<lparr>body := body st1 @ b\<rparr>)"

definition http_Error :: "string \<Rightarrow> nat \<Rightarrow> 'f state \<Rightarrow> 'f state" where
  "http_Error msg code st = Write (msg @ [CHR 0x0A]) (WriteHeader code st)"

definition log_Printf :: "string \<Rightarrow> 'f arg list \<Rightarrow> 'f state \<Rightarrow> 'f state" where
  "log_Printf fmt args st = st\<lparr>logged := logged st @ [Printf fmt args]\<rparr>"

definition log_Println :: "'f arg list \<Rightarrow> 'f state \<Rightarrow> 'f state" where
  "log_Println args st = st\<lparr>logged := logged st @ [Println args]\<rparr>"

text \<open>
  \<open>json.Marshal\<close> of a map from strings to strings whose keys and values need no
  escaping (the handlers marshal the one-entry map \<open>status: ok\<close>); it does not fail.
\<close>

definition json_string :: "string \<Rightarrow> string" where
  "json_string s = [CHR 0x22] @ s @ [CHR 0x22]"

fun json_members :: "(string \<times> string) list \<Rightarrow> string" where
  "json_members [] = []"
| "json_members [(k, v)] = json_string k @ '':'' @ json_string v"
| "json_members ((k, v) # kvs) = json_string k @ '':'' @ json_string v @ '','' @ json_members kvs"

definition json_Marshal :: "(string \<times> string) list \<Rightarrow> error + string" where
  "json_Marshal m = Inr (''{'' @ json_members m @ ''}'')"

subsection \<open>The welcome route\<close>

definition getRoot :: "Request \<Rightarrow> 'f state \<Rightarrow> 'f outcome" where
  "getRoot r st =
     (if URL_Path r \<noteq> ''/'' then Return (http_Error ''404 not found.'' StatusNotFound st)
      else if Method r \<noteq> ''GET'' then
        Return (http_Error ''Method is not supported.'' StatusNotFound st)
      else Return (Write ''Welcome'' st))"

subsection \<open>The ingestion route\<close>

text \<open>
  The two points of a submission, and the end of both handlers: the write call, whose
  error is logged, and the JSON answer. \<open>WritePoint\<close> is the blocking write of the
  database client, a parameter: it is given both points at once and returns an error
  or nil.
\<close>

definition airPoint :: "string \<Rightarrow> int \<Rightarrow> 'f \<Rightarrow> 'f \<Rightarrow> 'f Point" where
  "airPoint node timestamp hum temp =
     SetTime (time_Unix timestamp 0)
       (AddField ''temperature'' temp
         (AddField ''humidity'' hum
           (AddTag ''location'' node
             (NewPointWithMeasurement ''air''))))"

definition accelerometerPoint :: "string \<Rightarrow> int \<Rightarrow> 'f \<Rightarrow> 'f \<Rightarrow> 'f \<Rightarrow> 'f Point" where
  "accelerometerPoint node timestamp x y z =
     SetTime (time_Unix timestamp 0)
       (AddField ''z'' z
         (AddField ''y'' y
           (AddField ''x'' x
             (AddTag ''location'' node
               (NewPointWithMeasurement ''accelerometer'')))))"

definition callWritePoint ::
  "('f Point list \<Rightarrow> error option) \<Rightarrow> 'f Point list \<Rightarrow> 'f state \<Rightarrow> 'f state" where
  "callWritePoint WritePoint ps st =
     (let st1 = st\<lparr>writes := writes st @ [ps]\<rparr>
      in case WritePoint ps of None \<Rightarrow> st1 | Some err \<Rightarrow> log_Println [E err] st1)"

text \<open>First file: no recovery around the parsing, no answer on a failed marshal.\<close>

definition postSensorData1 ::
  "(string \<Rightarrow> ('f::zero) \<times> NumError option) \<Rightarrow> ('f Point list \<Rightarrow> error option) \<Rightarrow>
     Request \<Rightarrow> 'f state \<Rightarrow> 'f outcome" where
  "postSensorData1 ParseFloat WritePoint r st =
     (if URL_Path r \<noteq> ''/api'' then Return (http_Error ''404 not found.'' StatusNotFound st)
      else if Method r \<noteq> ''POST'' then
        Return (http_Error ''Method is not supported.'' StatusNotFound st)
      else case ParseForm_err r of
        Some err \<Rightarrow> Return (log_Printf ''Error parsing form: %v'' [E err] st)
      | None \<Rightarrow>
         (let data0 = FormValue r ''data'';
              node0 = FormValue r ''node'';
              node = (if node0 = [] then ''unknown'' else node0);
              data = Replace replacer data0
          in case inlineParse ParseFloat data of
               Inl p \<Rightarrow> Panic p st
             | Inr (timestamp, hum, temp, x, y, z) \<Rightarrow>
                (let st1 = log_Printf
                       ''Node: %s, Timestamp: %d, Humidity: %f, Temperature: %f, Accelerometer: %f, %f, %f''
                       [S node, I timestamp, F hum, F temp, F x, F y, F z] st;
                     p1 = airPoint node timestamp hum temp;
                     p2 = accelerometerPoint node timestamp x y z;
                     st2 = callWritePoint WritePoint [p1, p2] st1
                 in case json_Marshal [(''status'', ''ok'')] of
                      Inl err \<Rightarrow>
                        Return (WriteHeader StatusInternalServerError (log_Println [E err] st2))
                    | Inr msg \<Rightarrow> Return (Write msg st2))))"

text \<open>
  Second file. \<open>formFields\<close> is the \<open>if\<close>/\<open>else\<close> that reads \<open>data\<close> and \<open>node\<close>
  (lines 288 to 299). When \<open>ParseForm\<close> fails and there is no body the handler logs and
  returns (\<open>FormError\<close>); with a body it reads the first value of each field from the
  multipart form, where a nil form or a missing field panics (\<open>FormPanic\<close>).
\<close>

datatype form_result = Fields string string | FormError error | FormPanic panic

definition formFields :: "Request \<Rightarrow> form_result" where
  "formFields r =
     (case ParseForm_err r of
        Some err \<Rightarrow>
          if Body_nil r then FormError err
          else (case MultipartForm r of
                  None \<Rightarrow> FormPanic NilPointerDereference
                | Some form \<Rightarrow>
                   (case index (Value form ''data'') 0 of
                      Inl p \<Rightarrow> FormPanic p
                    | Inr data \<Rightarrow>
                       (case index (Value form ''node'') 0 of
                          Inl p \<Rightarrow> FormPanic p
                        | Inr node \<Rightarrow> Fields data node)))
      | None \<Rightarrow> Fields (FormValue r ''data'') (FormValue r ''node''))"

definition postSensorData2 ::
  "(string \<Rightarrow> ('f::zero) \<times> NumError option) \<Rightarrow> ('f Point list \<Rightarrow> error option) \<Rightarrow>
     Request \<Rightarrow> 'f state \<Rightarrow> 'f outcome" where
  "postSensorData2 ParseFloat WritePoint r st =
     (if URL_Path r \<noteq> ''/api'' then Return (http_Error ''404 not found.'' StatusNotFound st)
      else if Method r \<noteq> ''POST'' then
        Return (http_Error ''Method is not supported.'' StatusNotFound st)
      else
        (let st0 = log_Println [H (Header r)] st
         in case formFields r of
              FormError err \<Rightarrow> Return (log_Printf ''Error parsing form: %v'' [E err] st0)
            | FormPanic p \<Rightarrow> Panic p st0
            | Fields data0 node0 \<Rightarrow>
               (let node = (if node0 = [] then ''unknown'' else node0);
                    data = Replace replacer data0;
                    ((timestamp, hum, temp, x, y, z, err), lg) =
                       parseData ParseFloat data (logged st0);
                    st1 = st0\<lparr>logged := lg\<rparr>
                in case err of
                     Some e \<Rightarrow>
                       Return (Write ''400 - Bad request data''
                         (WriteHeader StatusBadRequest (log_Printf ''Error: %s'' [E e] st1)))
                   | None \<Rightarrow>
                      (let p1 = airPoint node timestamp hum temp;
                           p2 = accelerometerPoint node timestamp x y z;
                           st2 = callWritePoint WritePoint [p1, p2] st1
                       in case json_Marshal [(''status'', ''ok'')] of
                            Inl e \<Rightarrow>
                              Return (Write ''500 - Something bad happened!''
                                (WriteHeader StatusInternalServerError
                                  (log_Println [E e] st2)))
                          | Inr msg \<Rightarrow> Return (Write msg st2)))))"

text \<open>The state a handler ended in, returned or not.\<close>

fun final :: "'f outcome \<Rightarrow> 'f state" where
  "final (Return st) = st"
| "final (Panic p st) = st"

text \<open>
  A payload has the structure the parser indexes into: at least four segments between
  \<open>|\<close>, and at least three components between \<open>,\<close> in the fourth.
\<close>

definition wellFormed :: "string \<Rightarrow> bool" where
  "wellFormed data =
     (4 \<le> length (Split data (CHR ''|'')) \<and>
      3 \<le> length (Split (Split data (CHR ''|'') ! 3) (CHR '','')))"

text \<open>
  A submission in standard form encoding, with a blank inside the payload and no
  \<open>node\<close> field, and the state in which the server calls a handler.
\<close>

definition sampleRequest :: Request where
  "sampleRequest =
     \<lparr>Method = ''POST'', URL_Path = ''/api'', Header = [], Body_nil = False,
      ParseForm_err = None, Form = [''data'' \<mapsto> [''1700000000|55 |21|1,2,9'']],
      MultipartForm = None\<rparr>"

definition fresh :: "'f state" where
  "fresh = \<lparr>status = None, body = [], logged = [], writes = []\<rparr>"

text \<open>
  A submission in multipart encoding, as \<open>net/http\<close> presents it. \<open>ParseForm\<close> does
  not read a multipart body: it returns the error of the query string, if any, and
  \<open>r.Form\<close> holds the query values only; \<open>FormValue\<close> does not read the body either
  once \<open>r.Form\<close> is set. \<open>ParseMultipartForm\<close> reads the fields of the body.
\<close>

definition multipartRequest ::
  "error option \<Rightarrow> (string \<rightharpoonup> string list) \<Rightarrow> (string \<rightharpoonup> string list) \<Rightarrow> Request" where
  "multipartRequest queryErr query form =
     \<lparr>Method = ''POST'', URL_Path = ''/api'',
      Header = [(''Content-Type'', [''multipart/form-data; boundary=b''])],
      Body_nil = False, ParseForm_err = queryErr, Form = query,
      MultipartForm = Some form\<rparr>"

text \<open>The \<open>err\<close> result of \<open>parseData\<close>.\<close>

definition errOf :: "int \<times> 'f \<times> 'f \<times> 'f \<times> 'f \<times> 'f \<times> error option \<Rightarrow> error option" where
  "errOf res = snd (snd (snd (snd (snd (snd res)))))"

section \<open>Properties of the library calls\<close>

lemma Split_not_Nil: "Split s sep \<noteq> []"
  by (induction s) (auto split: list.splits)

lemma Split_no_sep: "sep \<notin> set a \<Longrightarrow> Split a sep = [a]"
  by (induction a) auto

lemma Split_append: "sep \<notin> set a \<Longrightarrow> Split (a @ sep # b) sep = a # Split b sep"
  by (induction a) auto

lemma ParseUint_loop_digits:
  "snd (ParseUint_loop s n) = None \<Longrightarrow> c \<in> set s \<Longrightarrow> is_digit c"
  by (induction s arbitrary: n) (auto simp: Let_def split: if_splits)

lemma ParseUint_loop_syntax:
  "snd (ParseUint_loop s n) = Some ErrSyntax \<Longrightarrow> fst (ParseUint_loop s n) = 0"
  by (induction s arbitrary: n) (auto simp: Let_def split: if_splits)

lemma ParseUint_loop_range:
  "snd (ParseUint_loop s n) = Some ErrRange \<Longrightarrow> fst (ParseUint_loop s n) = maxUint64"
  by (induction s arbitrary: n) (auto simp: Let_def split: if_splits)

lemma is_digit_not_sep: "is_digit c \<Longrightarrow> c \<noteq> CHR ''|'' \<and> c \<noteq> CHR '','' \<and> c \<noteq> CHR ''+'' \<and> c \<noteq> CHR ''-''"
  by (auto simp: is_digit_def)

lemma ParseUint_range:
  "snd (ParseUint s) = Some ErrRange \<Longrightarrow> fst (ParseUint s) = maxUint64"
  by (auto simp: ParseUint_def ParseUint_loop_range split: if_splits)

lemma ParseUint_syntax:
  "snd (ParseUint s) = Some ErrSyntax \<Longrightarrow> fst (ParseUint s) = 0"
  by (auto simp: ParseUint_def ParseUint_loop_syntax split: if_splits)

lemma ParseUint_digits:
  "snd (ParseUint s) = None \<Longrightarrow> c \<in> set s \<Longrightarrow> is_digit c"
  using ParseUint_loop_digits by (auto simp: ParseUint_def split: if_splits)

lemma ParseInt_Nil: "ParseInt [] = (0, Some ErrSyntax)"
  by (simp add: ParseInt_def)

text \<open>The string handed to the digit loop: the argument without its sign.\<close>

lemma ParseInt_Cons:
  assumes "ParseUint (if c = CHR ''+'' \<or> c = CHR ''-'' then cs else c # cs) = (un, err)"
  shows "ParseInt (c # cs) =
     (if err = Some ErrSyntax then (0, err)
      else if c \<noteq> CHR ''-'' \<and> 2 ^ 63 \<le> un then (2 ^ 63 - 1, Some ErrRange)
      else if c = CHR ''-'' \<and> 2 ^ 63 < un then (- (2 ^ 63), Some ErrRange)
      else (if c = CHR ''-'' then - un else un, None))"
proof -
  have e: "(err \<noteq> None \<and> err \<noteq> Some ErrRange) = (err = Some ErrSyntax)"
    by (cases err) (auto intro: NumError.exhaust)
  show ?thesis
    unfolding ParseInt_def list.case Let_def assms prod.case e by (rule refl)
qed

lemma ParseInt_ok_ParseUint:
  assumes "snd (ParseInt (c # cs)) = None"
  shows "snd (ParseUint (if c = CHR ''+'' \<or> c = CHR ''-'' then cs else c # cs)) = None"
proof -
  obtain un err where
    u: "ParseUint (if c = CHR ''+'' \<or> c = CHR ''-'' then cs else c # cs) = (un, err)"
    by (cases "ParseUint (if c = CHR ''+'' \<or> c = CHR ''-'' then cs else c # cs)")
  note P = ParseInt_Cons [OF u]
  have "err = None"
  proof (cases err)
    case None then show ?thesis .
  next
    case (Some e)
    show ?thesis
    proof (cases e)
      case ErrSyntax
      with Some assms show ?thesis unfolding P by simp
    next
      case ErrRange
      with Some u have "un = maxUint64" using ParseUint_range
        by (metis fst_conv snd_conv)
      then have "(2::int) ^ 63 < un" by (simp add: maxUint64_def)
      with assms show ?thesis unfolding P by (simp split: if_splits)
    qed
  qed
  with u show ?thesis by simp
qed

lemma ParseInt_ok_no_bar:
  assumes "snd (ParseInt s) = None" shows "CHR ''|'' \<notin> set s"
proof (cases s)
  case Nil then show ?thesis by simp
next
  case (Cons c cs)
  have c: "c \<noteq> CHR ''|''"
  proof (cases "c = CHR ''+'' \<or> c = CHR ''-''")
    case True then show ?thesis by auto
  next
    case False
    with assms Cons have "snd (ParseUint (c # cs)) = None"
      using ParseInt_ok_ParseUint [of c cs] by simp
    then have "is_digit c" using ParseUint_digits [of "c # cs" c] by simp
    then show ?thesis using is_digit_not_sep by blast
  qed
  have "x \<noteq> CHR ''|''" if "x \<in> set cs" for x
  proof -
    from assms Cons
    have "snd (ParseUint (if c = CHR ''+'' \<or> c = CHR ''-'' then cs else c # cs)) = None"
      using ParseInt_ok_ParseUint by blast
    with that have "is_digit x"
      using ParseUint_digits [of "if c = CHR ''+'' \<or> c = CHR ''-'' then cs else c # cs" x]
      by (simp split: if_splits)
    then show ?thesis using is_digit_not_sep by blast
  qed
  with c Cons show ?thesis by auto
qed

lemma ParseInt_syntax_zero:
  assumes "snd (ParseInt s) = Some ErrSyntax" shows "fst (ParseInt s) = 0"
proof (cases s)
  case Nil then show ?thesis by (simp add: ParseInt_Nil)
next
  case (Cons c cs)
  obtain un err where
    u: "ParseUint (if c = CHR ''+'' \<or> c = CHR ''-'' then cs else c # cs) = (un, err)"
    by (cases "ParseUint (if c = CHR ''+'' \<or> c = CHR ''-'' then cs else c # cs)")
  from assms show ?thesis unfolding Cons ParseInt_Cons [OF u] by (simp split: if_splits)
qed

lemma ParseInt_range_sign:
  assumes "snd (ParseInt s) = Some ErrRange"
  shows "fst (ParseInt s) = (if take 1 s = ''-'' then - (2 ^ 63) else 2 ^ 63 - 1)"
proof (cases s)
  case Nil with assms show ?thesis by (simp add: ParseInt_Nil)
next
  case (Cons c cs)
  obtain un err where
    u: "ParseUint (if c = CHR ''+'' \<or> c = CHR ''-'' then cs else c # cs) = (un, err)"
    by (cases "ParseUint (if c = CHR ''+'' \<or> c = CHR ''-'' then cs else c # cs)")
  from assms show ?thesis unfolding Cons ParseInt_Cons [OF u] by (simp split: if_splits)
qed

section \<open>Properties of the two parsers\<close>

lemma index_lt: "i < length xs \<Longrightarrow> index xs i = Inr (xs ! i)"
  by (simp add: index_def)

lemma index_ge: "\<not> i < length xs \<Longrightarrow> index xs i = Inl (IndexOutOfRange i (length xs))"
  by (simp add: index_def)

lemma parseData_wellFormed:
  assumes "wellFormed data"
  shows "fst (parseData ParseFloat data lg) =
     (fst (ParseInt (Split data (CHR ''|'') ! 0)),
      fst (ParseFloat (Split data (CHR ''|'') ! 1)),
      fst (ParseFloat (Split data (CHR ''|'') ! 2)),
      fst (ParseFloat (Split (Split data (CHR ''|'') ! 3) (CHR '','') ! 0)),
      fst (ParseFloat (Split (Split data (CHR ''|'') ! 3) (CHR '','') ! 1)),
      fst (ParseFloat (Split (Split data (CHR ''|'') ! 3) (CHR '','') ! 2)),
      None)"
  using assms by (simp add: parseData_def wellFormed_def Let_def index_def Split_not_Nil)

lemma parseData_malformed:
  assumes "\<not> wellFormed data"
  shows "errOf (fst (parseData ParseFloat data lg)) = Some parseData_err"
proof (cases "4 \<le> length (Split data (CHR ''|''))")
  case False
  then show ?thesis
    by (simp add: parseData_def errOf_def Let_def index_def Split_not_Nil)
next
  case True
  with assms have "\<not> 3 \<le> length (Split (Split data (CHR ''|'') ! 3) (CHR '',''))"
    by (simp add: wellFormed_def)
  with True show ?thesis
    by (simp add: parseData_def errOf_def Let_def index_def Split_not_Nil)
qed

lemma inlineParse_wellFormed:
  assumes "wellFormed data"
  shows "inlineParse ParseFloat data = Inr
     (fst (ParseInt (Split data (CHR ''|'') ! 0)),
      fst (ParseFloat (Split data (CHR ''|'') ! 1)),
      fst (ParseFloat (Split data (CHR ''|'') ! 2)),
      fst (ParseFloat (Split (Split data (CHR ''|'') ! 3) (CHR '','') ! 0)),
      fst (ParseFloat (Split (Split data (CHR ''|'') ! 3) (CHR '','') ! 1)),
      fst (ParseFloat (Split (Split data (CHR ''|'') ! 3) (CHR '','') ! 2)))"
  using assms by (simp add: inlineParse_def wellFormed_def Let_def index_def Split_not_Nil)

lemma inlineParse_malformed:
  assumes "\<not> wellFormed data"
  shows "\<exists>p. inlineParse ParseFloat data = Inl p"
proof (cases "4 \<le> length (Split data (CHR ''|''))")
  case False
  then show ?thesis
    by (simp add: inlineParse_def Let_def index_def Split_not_Nil)
next
  case True
  with assms have "\<not> 3 \<le> length (Split (Split data (CHR ''|'') ! 3) (CHR '',''))"
    by (simp add: wellFormed_def)
  with True show ?thesis
    by (simp add: inlineParse_def Let_def index_def Split_not_Nil)
qed

lemma parseData_segments:
  assumes "Split data (CHR ''|'') = b0 # b1 # b2 # b3 # bs"
    and "Split b3 (CHR '','') = a0 # a1 # a2 # as"
  shows "wellFormed data"
    and "fst (parseData ParseFloat data lg) =
      (fst (ParseInt b0), fst (ParseFloat b1), fst (ParseFloat b2),
       fst (ParseFloat a0), fst (ParseFloat a1), fst (ParseFloat a2), None)"
proof -
  show w: "wellFormed data" by (simp add: wellFormed_def assms)
  show "fst (parseData ParseFloat data lg) =
      (fst (ParseInt b0), fst (ParseFloat b1), fst (ParseFloat b2),
       fst (ParseFloat a0), fst (ParseFloat a1), fst (ParseFloat a2), None)"
    by (simp add: parseData_wellFormed [OF w] assms)
qed

lemma payload_Split:
  assumes "CHR ''|'' \<notin> set ts" "CHR ''|'' \<notin> set h" "CHR ''|'' \<notin> set t"
    and "CHR ''|'' \<notin> set x" "CHR ''|'' \<notin> set y" "CHR ''|'' \<notin> set z"
  shows "Split (ts @ ''|'' @ h @ ''|'' @ t @ ''|'' @ x @ '','' @ y @ '','' @ z) (CHR ''|'') =
           [ts, h, t, x @ '','' @ y @ '','' @ z]"
  using assms by (simp add: Split_append Split_no_sep)

lemma triple_Split:
  assumes "CHR '','' \<notin> set x" "CHR '','' \<notin> set y" "CHR '','' \<notin> set z"
  shows "Split (x @ '','' @ y @ '','' @ z) (CHR '','') = [x, y, z]"
  using assms by (simp add: Split_append Split_no_sep)

section \<open>The claims\<close>

text \<open>
  In the closed instances below \<open>ParseInt\<close> stands for \<open>ParseFloat\<close>, with the integers as
  the float type: on a short decimal integer literal both give the same number.
\<close>

subsection \<open>Round trip\<close>

text \<open>
  C2. For a payload \<open>ts|h|t|x,y,z\<close> in which \<open>ts\<close> is a decimal integer that \<open>ParseInt\<close>
  converts without error and \<open>h\<close>, \<open>t\<close>, \<open>x\<close>, \<open>y\<close>, \<open>z\<close> are float literals that
  \<open>ParseFloat\<close> converts without error, \<open>parseData\<close> returns exactly the six converted
  values and a nil error. A float literal of Go holds neither \<open>|\<close> nor \<open>,\<close>; as
  \<open>ParseFloat\<close> is a parameter this is said of the five literals.
\<close>

theorem parseData_round_trip:
  assumes "ParseInt ts = (tsv, None)"
    and "ParseFloat h = (hv, None)" "ParseFloat t = (tv, None)"
    and "ParseFloat x = (xv, None)" "ParseFloat y = (yv, None)" "ParseFloat z = (zv, None)"
    and "CHR ''|'' \<notin> set h \<union> set t \<union> set x \<union> set y \<union> set z"
    and "CHR '','' \<notin> set x \<union> set y \<union> set z"
  shows "fst (parseData ParseFloat
            (ts @ ''|'' @ h @ ''|'' @ t @ ''|'' @ x @ '','' @ y @ '','' @ z) lg) =
         (tsv, hv, tv, xv, yv, zv, None)"
proof -
  let ?data = "ts @ ''|'' @ h @ ''|'' @ t @ ''|'' @ x @ '','' @ y @ '','' @ z"
  have "CHR ''|'' \<notin> set ts"
    using assms(1) ParseInt_ok_no_bar [of ts] by simp
  with assms(7) have b: "Split ?data (CHR ''|'') = [ts, h, t, x @ '','' @ y @ '','' @ z]"
    by (intro payload_Split) auto
  from assms(8) have a: "Split (x @ '','' @ y @ '','' @ z) (CHR '','') = [x, y, z]"
    by (intro triple_Split) auto
  have "wellFormed ?data"
    unfolding wellFormed_def b using a by simp
  from parseData_wellFormed [OF this, of ParseFloat lg]
  have "fst (parseData ParseFloat ?data lg) =
      (fst (ParseInt ts), fst (ParseFloat h), fst (ParseFloat t),
       fst (ParseFloat x), fst (ParseFloat y), fst (ParseFloat z), None)"
    unfolding b using a by simp
  then show ?thesis
    by (simp add: assms(1-6))
qed

theorem parseData_round_trip_witness:
  "ParseInt ''1700000000'' = (1700000000, None) \<and>
   ParseInt ''55'' = (55, None) \<and> ParseInt ''21'' = (21, None) \<and>
   ParseInt ''1'' = (1, None) \<and> ParseInt ''2'' = (2, None) \<and> ParseInt ''9'' = (9, None) \<and>
   CHR ''|'' \<notin> set ''55'' \<union> set ''21'' \<union> set ''1'' \<union> set ''2'' \<union> set ''9'' \<and>
   CHR '','' \<notin> set ''1'' \<union> set ''2'' \<union> set ''9'' \<and>
   fst (parseData ParseInt ''1700000000|55|21|1,2,9'' []) =
     (1700000000, 55, 21, 1, 2, 9, None)"
proof -
  have p: "ParseInt ''1700000000'' = (1700000000, None)"
       "ParseInt ''55'' = (55, None)" "ParseInt ''21'' = (21, None)"
       "ParseInt ''1'' = (1, None)" "ParseInt ''2'' = (2, None)" "ParseInt ''9'' = (9, None)"
    by (simp_all add: ParseInt_def ParseUint_def is_digit_def cutoff_def maxUint64_def)
  from parseData_round_trip [OF this, of "[]"]
  have "fst (parseData ParseInt ''1700000000|55|21|1,2,9'' []) =
     (1700000000, 55, 21, 1, 2, 9, None)"
    by simp
  with p show ?thesis by simp
qed

subsection \<open>Sanitization\<close>

lemma Replace_replacer_filter:
  "Replace replacer s =
     filter (\<lambda>c. c \<notin> {CHR '' '', CHR 0x09, CHR 0x0A, CHR 0x0D, CHR 0x00}) s"
  by (induction s) (simp_all add: Replace_def replacer_def)

lemma sanitized_unchanged:
  "set s \<inter> {CHR '' '', CHR 0x09, CHR 0x0A, CHR 0x0D, CHR 0x00} = {} \<Longrightarrow>
     Replace replacer s = s"
  unfolding Replace_replacer_filter by (rule filter_True) auto

text \<open>
  C9. Removing every space, tab, newline, carriage return and NUL is idempotent:
  sanitizing a sanitized string gives the same string.
\<close>

theorem sanitize_idempotent:
  "Replace replacer (Replace replacer s) = Replace replacer s"
  by (simp add: Replace_replacer_filter)

subsection \<open>The two parsing sequences\<close>

lemma wellFormed_example: "wellFormed ''1700000000|55|21|1,2,9''"
  by (simp add: wellFormed_def)

text \<open>
  C10. On a payload with at least four \<open>|\<close>-segments and at least three
  \<open>,\<close>-components in the fourth, the inline parsing of the first file and \<open>parseData\<close>
  of the second compute the same six values.
\<close>

theorem inline_parse_agrees:
  assumes "wellFormed data"
  shows "\<exists>ts h t x y z.
           inlineParse ParseFloat data = Inr (ts, h, t, x, y, z) \<and>
           fst (parseData ParseFloat data lg) = (ts, h, t, x, y, z, None)"
  using parseData_wellFormed [OF assms] inlineParse_wellFormed [OF assms] by blast

theorem inline_parse_agrees_witness:
  "wellFormed ''1700000000|55|21|1,2,9'' \<and>
   (\<exists>ts h t x y z.
      inlineParse ParseInt ''1700000000|55|21|1,2,9'' = Inr (ts, h, t, x, y, z) \<and>
      fst (parseData ParseInt ''1700000000|55|21|1,2,9'' []) = (ts, h, t, x, y, z, None))"
  using inline_parse_agrees [OF wellFormed_example, of ParseInt "[]"] wellFormed_example
  by blast

text \<open>
  C1. A payload with fewer than four segments, or fewer than three components in the
  fourth, makes \<open>parseData\<close> return its error (lemma \<open>parseData_malformed\<close>). The inline
  parsing of the first file has no recovery: on the payload \<open>garbage\<close> the index
  expression \<open>bodyArr[1]\<close> panics and the panic leaves the parsing step, where
  \<open>parseData\<close> returns the error.
\<close>

theorem inline_parse_panics:
  "inlineParse ParseFloat ''garbage'' = Inl (IndexOutOfRange 1 1) \<and>
   errOf (fst (parseData ParseFloat ''garbage'' lg)) = Some parseData_err"
  by (simp add: inlineParse_def parseData_def errOf_def index_def Let_def)

subsection \<open>Conversion errors\<close>

text \<open>
  C3, as stated, fails. The timestamp \<open>9223372036854775808\<close> is a decimal integer one
  beyond the largest int64: \<open>ParseInt\<close> reports a range error and returns the largest
  int64, and \<open>parseData\<close> returns that value, not zero, with a nil error.
\<close>

theorem range_error_not_zero:
  "wellFormed ''9223372036854775808|1|2|3,4,5'' \<and>
   snd (ParseInt ''9223372036854775808'') = Some ErrRange \<and>
   fst (parseData ParseInt ''9223372036854775808|1|2|3,4,5'' []) =
     (9223372036854775807, 1, 2, 3, 4, 5, None)"
  by (simp add: wellFormed_def parseData_def index_def Let_def
        ParseInt_def ParseUint_def is_digit_def cutoff_def maxUint64_def)

text \<open>
  C3, amended. On a payload with at least four segments and at least three components
  in the fourth, \<open>parseData\<close> returns a nil error whatever the conversions report, and
  every field holds the value its conversion returned. A field whose conversion
  reports a syntax error is zero. A timestamp whose conversion reports a range error
  is the int64 bound of its sign: the smallest int64 when the segment starts with
  \<open>-\<close>, the largest otherwise. That \<open>ParseFloat\<close> returns zero with a syntax error is
  a fact of \<open>strconv\<close>, here a hypothesis on the parameter.
\<close>

theorem conversion_errors_ignored:
  assumes "Split data (CHR ''|'') = b0 # b1 # b2 # b3 # bs"
    and "Split b3 (CHR '','') = a0 # a1 # a2 # as"
    and "\<And>s. snd (ParseFloat s) = Some ErrSyntax \<Longrightarrow> fst (ParseFloat s) = 0"
  shows "\<exists>ts h t x y z.
     fst (parseData ParseFloat data lg) = (ts, h, t, x, y, z, None) \<and>
     ts = fst (ParseInt b0) \<and> h = fst (ParseFloat b1) \<and> t = fst (ParseFloat b2) \<and>
     x = fst (ParseFloat a0) \<and> y = fst (ParseFloat a1) \<and> z = fst (ParseFloat a2) \<and>
     (snd (ParseInt b0) = Some ErrSyntax \<longrightarrow> ts = 0) \<and>
     (snd (ParseInt b0) = Some ErrRange \<longrightarrow>
        ts = (if take 1 b0 = ''-'' then - (2 ^ 63) else 2 ^ 63 - 1)) \<and>
     (snd (ParseFloat b1) = Some ErrSyntax \<longrightarrow> h = 0) \<and>
     (snd (ParseFloat b2) = Some ErrSyntax \<longrightarrow> t = 0) \<and>
     (snd (ParseFloat a0) = Some ErrSyntax \<longrightarrow> x = 0) \<and>
     (snd (ParseFloat a1) = Some ErrSyntax \<longrightarrow> y = 0) \<and>
     (snd (ParseFloat a2) = Some ErrSyntax \<longrightarrow> z = 0)"
  using parseData_segments(2) [OF assms(1,2), of ParseFloat lg]
    ParseInt_syntax_zero [of b0] ParseInt_range_sign [of b0] assms(3)
  by simp

lemma ParseInt_examples:
  "ParseInt ''12a'' = (0, Some ErrSyntax)" "ParseInt ''x'' = (0, Some ErrSyntax)"
  "ParseInt ''-9223372036854775809'' = (- 9223372036854775808, Some ErrRange)"
  "ParseInt ''99999999999999999999a'' = (9223372036854775807, Some ErrRange)"
  "ParseInt ''1'' = (1, None)" "ParseInt ''2'' = (2, None)" "ParseInt ''3'' = (3, None)"
  "ParseInt ''4'' = (4, None)" "ParseInt ''5'' = (5, None)"
  by (simp_all add: ParseInt_def ParseUint_def is_digit_def cutoff_def maxUint64_def)

theorem conversion_errors_ignored_witness:
  "Split ''12a|1|x|3,4,5'' (CHR ''|'') = [''12a'', ''1'', ''x'', ''3,4,5''] \<and>
   Split ''-9223372036854775809|1|2|3,4,5'' (CHR ''|'') =
     [''-9223372036854775809'', ''1'', ''2'', ''3,4,5''] \<and>
   Split ''99999999999999999999a|1|2|3,4,5'' (CHR ''|'') =
     [''99999999999999999999a'', ''1'', ''2'', ''3,4,5''] \<and>
   Split ''3,4,5'' (CHR '','') = [''3'', ''4'', ''5''] \<and>
   snd (ParseInt ''12a'') = Some ErrSyntax \<and> snd (ParseInt ''x'') = Some ErrSyntax \<and>
   snd (ParseInt ''-9223372036854775809'') = Some ErrRange \<and>
   snd (ParseInt ''99999999999999999999a'') = Some ErrRange \<and>
   fst (parseData ParseInt ''12a|1|x|3,4,5'' []) = (0, 1, 0, 3, 4, 5, None) \<and>
   fst (parseData ParseInt ''-9223372036854775809|1|2|3,4,5'' []) =
     (- 9223372036854775808, 1, 2, 3, 4, 5, None) \<and>
   fst (parseData ParseInt ''99999999999999999999a|1|2|3,4,5'' []) =
     (9223372036854775807, 1, 2, 3, 4, 5, None)"
proof -
  have s: "Split ''12a|1|x|3,4,5'' (CHR ''|'') = [''12a'', ''1'', ''x'', ''3,4,5'']"
    "Split ''-9223372036854775809|1|2|3,4,5'' (CHR ''|'') =
       [''-9223372036854775809'', ''1'', ''2'', ''3,4,5'']"
    "Split ''99999999999999999999a|1|2|3,4,5'' (CHR ''|'') =
       [''99999999999999999999a'', ''1'', ''2'', ''3,4,5'']"
    and c: "Split ''3,4,5'' (CHR '','') = [''3'', ''4'', ''5'']"
    by simp_all
  note z = ParseInt_syntax_zero
  have "fst (parseData ParseInt ''12a|1|x|3,4,5'' []) = (0, 1, 0, 3, 4, 5, None)"
    using conversion_errors_ignored [OF s(1) c z, where lg = "[]"]
    by (auto simp: ParseInt_examples)
  moreover
  have "fst (parseData ParseInt ''-9223372036854775809|1|2|3,4,5'' []) =
     (- 9223372036854775808, 1, 2, 3, 4, 5, None)"
    using conversion_errors_ignored [OF s(2) c z, where lg = "[]"]
    by (auto simp: ParseInt_examples)
  moreover
  have "fst (parseData ParseInt ''99999999999999999999a|1|2|3,4,5'' []) =
     (9223372036854775807, 1, 2, 3, 4, 5, None)"
    using conversion_errors_ignored [OF s(3) c z, where lg = "[]"]
    by (auto simp: ParseInt_examples)
  ultimately show ?thesis
    using s c by (simp add: ParseInt_examples)
qed

subsection \<open>The ingestion handler\<close>

lemma json_status_ok: \<open>json_Marshal [(''status'', ''ok'')] = Inr ''{"status":"ok"}''\<close>
  by (simp add: json_Marshal_def json_string_def)

lemma writes_ops:
  "writes (WriteHeader code st) = writes st"
  "writes (Write b st) = writes st"
  "writes (http_Error msg code st) = writes st"
  "writes (log_Printf fmt args st) = writes st"
  "writes (log_Println args st) = writes st"
  "writes (callWritePoint WritePoint ps st) = writes st @ [ps]"
  by (simp_all add: WriteHeader_def Write_def http_Error_def log_Printf_def log_Println_def
        callWritePoint_def Let_def split: option.splits)

lemma response_ops:
  "status (log_Printf fmt args st) = status st" "body (log_Printf fmt args st) = body st"
  "status (log_Println args st) = status st" "body (log_Println args st) = body st"
  "status (callWritePoint WritePoint ps st) = status st"
  "body (callWritePoint WritePoint ps st) = body st"
  "status st = None \<Longrightarrow> status (WriteHeader code st) = Some code"
  "body (WriteHeader code st) = body st"
  "status st = None \<Longrightarrow> status (Write b st) = Some StatusOK"
  "status st = Some code \<Longrightarrow> status (Write b st) = Some code"
  "body (Write b st) = body st @ b"
  "status st = None \<Longrightarrow> status (http_Error msg code st) = Some code"
  "body (http_Error msg code st) = body st @ msg @ [CHR 0x0A]"
  by (simp_all add: WriteHeader_def Write_def http_Error_def log_Printf_def log_Println_def
        callWritePoint_def Let_def split: option.splits)

lemma formFields_update:
  "formFields (r\<lparr>Method := m\<rparr>) = formFields r"
  "formFields (r\<lparr>URL_Path := p\<rparr>) = formFields r"
  by (simp_all add: formFields_def FormValue_def split: option.splits)

lemma points_unfold:
  "airPoint node ts h t =
     \<lparr>Measurement = ''air'', Tags = [(''location'', node)],
      Fields = [(''humidity'', h), (''temperature'', t)], Time = ts\<rparr>"
  "accelerometerPoint node ts x y z =
     \<lparr>Measurement = ''accelerometer'', Tags = [(''location'', node)],
      Fields = [(''x'', x), (''y'', y), (''z'', z)], Time = ts\<rparr>"
  by (simp_all add: airPoint_def accelerometerPoint_def NewPointWithMeasurement_def
        AddTag_def AddField_def SetTime_def time_Unix_def)

lemma parseData_log_irrelevant:
  "fst (parseData ParseFloat data lg) = fst (parseData ParseFloat data [])"
proof (cases "wellFormed data")
  case True
  then show ?thesis by (simp add: parseData_wellFormed)
next
  case False
  show ?thesis
    by (simp add: parseData_def Let_def split: sum.splits)
qed

lemma postSensorData2_wellFormed:
  assumes "URL_Path r = ''/api''" "Method r = ''POST''"
    and "formFields r = Fields data0 node0"
    and "wellFormed (Replace replacer data0)"
    and "parseData ParseFloat (Replace replacer data0) (logged st @ [Println [H (Header r)]]) =
           ((ts, h, t, x, y, z, err), lg)"
  shows \<open>err = None \<and> postSensorData2 ParseFloat WritePoint r st =
     Return (Write ''{"status":"ok"}''
       (callWritePoint WritePoint
          [airPoint (if node0 = [] then ''unknown'' else node0) ts h t,
           accelerometerPoint (if node0 = [] then ''unknown'' else node0) ts x y z]
          (st\<lparr>logged := lg\<rparr>)))\<close>
proof -
  from parseData_wellFormed [OF assms(4), of ParseFloat "logged st @ [Println [H (Header r)]]"]
  have e: "err = None" unfolding assms(5) by simp
  show ?thesis
    unfolding postSensorData2_def
    by (simp add: assms(1-3) assms(5) e Let_def log_Println_def json_status_ok)
qed

lemma postSensorData2_malformed:
  assumes "URL_Path r = ''/api''" "Method r = ''POST''"
    and "formFields r = Fields data0 node0"
    and "\<not> wellFormed (Replace replacer data0)"
    and "parseData ParseFloat (Replace replacer data0) (logged st @ [Println [H (Header r)]]) =
           (res, lg)"
  shows "postSensorData2 ParseFloat WritePoint r st =
     Return (Write ''400 - Bad request data''
       (WriteHeader StatusBadRequest
         (log_Printf ''Error: %s'' [E parseData_err] (st\<lparr>logged := lg\<rparr>))))"
proof -
  obtain ts h t x y z err where r: "res = (ts, h, t, x, y, z, err)"
    by (cases res) auto
  from parseData_malformed [OF assms(4), of ParseFloat "logged st @ [Println [H (Header r)]]"]
  have e: "err = Some parseData_err" unfolding assms(5) r by (simp add: errOf_def)
  show ?thesis
    unfolding postSensorData2_def
    by (simp add: assms(1-3) assms(5) r e Let_def log_Println_def)
qed


lemma sampleRequest_facts:
  "URL_Path sampleRequest = ''/api''" "Method sampleRequest = ''POST''"
  "formFields sampleRequest = Fields ''1700000000|55 |21|1,2,9'' []"
  "Replace replacer ''1700000000|55 |21|1,2,9'' = ''1700000000|55|21|1,2,9''"
  "wellFormed (Replace replacer ''1700000000|55 |21|1,2,9'')"
  by (simp_all add: sampleRequest_def formFields_def FormValue_def Value_def
        Replace_def replacer_def wellFormed_def)

lemma fresh_facts:
  "status fresh = None" "body fresh = []" "logged fresh = []" "writes fresh = []"
  by (simp_all add: fresh_def)

text \<open>
  Second file: a payload that fails parsing is answered with status 400 and the body
  \<open>400 - Bad request data\<close>, and no write call is made.
\<close>

lemma postSensorData2_bad_payload:
  assumes "URL_Path r = ''/api''" "Method r = ''POST''"
    and "formFields r = Fields data0 node0"
    and "\<not> wellFormed (Replace replacer data0)"
    and "status st = None"
  shows "\<exists>st'. postSensorData2 ParseFloat WritePoint r st = Return st' \<and>
           status st' = Some StatusBadRequest \<and>
           body st' = body st @ ''400 - Bad request data'' \<and>
           writes st' = writes st"
proof -
  obtain res lg where
    p: "parseData ParseFloat (Replace replacer data0) (logged st @ [Println [H (Header r)]]) =
          (res, lg)"
    by (cases "parseData ParseFloat (Replace replacer data0)
                 (logged st @ [Println [H (Header r)]])")
  show ?thesis
    unfolding postSensorData2_malformed [OF assms(1-4) p]
    by (simp add: writes_ops response_ops assms(5))
qed


text \<open>
  First file: every payload that lacks the structure makes the handler panic, in the
  state it was called in.
\<close>

lemma postSensorData1_malformed_panics:
  assumes "URL_Path r = ''/api''" "Method r = ''POST''" "ParseForm_err r = None"
    and "\<not> wellFormed (Replace replacer (FormValue r ''data''))"
  shows "\<exists>p. postSensorData1 ParseFloat WritePoint r st = Panic p st"
proof -
  from inlineParse_malformed [OF assms(4), of ParseFloat]
  obtain p where "inlineParse ParseFloat (Replace replacer (FormValue r ''data'')) = Inl p"
    by blast
  then show ?thesis
    by (simp add: postSensorData1_def assms(1-3) Let_def)
qed

text \<open>
  C4. The handler of the first file has no such answer: on the payload \<open>garbage\<close> it
  panics at \<open>bodyArr[1]\<close> before any header is written, so the request gets no 400.
  No write call is made there either.
\<close>

theorem first_handler_panics:
  "postSensorData1 ParseFloat WritePoint
     \<lparr>Method = ''POST'', URL_Path = ''/api'', Header = [], Body_nil = False,
      ParseForm_err = None, Form = [''data'' \<mapsto> [''garbage'']], MultipartForm = None\<rparr>
     \<lparr>status = None, body = [], logged = [], writes = []\<rparr> =
   Panic (IndexOutOfRange 1 1) \<lparr>status = None, body = [], logged = [], writes = []\<rparr>"
  by (simp add: postSensorData1_def FormValue_def Value_def Replace_def replacer_def
        inlineParse_def index_def Let_def)

text \<open>
  Reading the fields: standard form parsing comes first, the multipart form is read
  only when \<open>ParseForm\<close> failed and a body is present. A \<open>node\<close> that is absent from
  the standard form, or blank in either encoding, gives both points the tag \<open>unknown\<close>,
  in the first file too.
\<close>

lemma formFields_standard_first:
  "ParseForm_err r = None \<Longrightarrow>
     formFields r = Fields (FormValue r ''data'') (FormValue r ''node'')"
  by (simp add: formFields_def)

lemma formFields_multipart_fallback:
  assumes "formFields r = Fields data0 node0" "ParseForm_err r \<noteq> None"
  shows "\<not> Body_nil r \<and>
         (\<exists>form. MultipartForm r = Some form \<and>
            index (Value form ''data'') 0 = Inr data0 \<and>
            index (Value form ''node'') 0 = Inr node0)"
  using assms
  by (auto simp: formFields_def split: option.splits if_splits sum.splits)

lemma FormValue_absent: "Form r k = None \<Longrightarrow> FormValue r k = []"
  by (simp add: FormValue_def Value_def)

lemma postSensorData2_default_node:
  assumes "URL_Path r = ''/api''" "Method r = ''POST''"
    and "formFields r = Fields data0 []"
    and "wellFormed (Replace replacer data0)"
    and "writes st = []"
  shows "\<exists>ts h t x y z. writes (final (postSensorData2 ParseFloat WritePoint r st)) =
           [[airPoint ''unknown'' ts h t, accelerometerPoint ''unknown'' ts x y z]]"
proof -
  obtain ts h t x y z err lg where
    p: "parseData ParseFloat (Replace replacer data0) (logged st @ [Println [H (Header r)]]) =
          ((ts, h, t, x, y, z, err), lg)"
    by (metis prod_cases7 surj_pair)
  from postSensorData2_wellFormed [OF assms(1-4) p, of WritePoint]
  have "writes (final (postSensorData2 ParseFloat WritePoint r st)) =
           [[airPoint ''unknown'' ts h t, accelerometerPoint ''unknown'' ts x y z]]"
    by (simp add: writes_ops assms(5))
  then show ?thesis by blast
qed

lemma postSensorData1_default_node:
  assumes "URL_Path r = ''/api''" "Method r = ''POST''"
    and "ParseForm_err r = None" "FormValue r ''node'' = []"
    and "wellFormed (Replace replacer (FormValue r ''data''))"
    and "writes st = []"
  shows "\<exists>ts h t x y z. writes (final (postSensorData1 ParseFloat WritePoint r st)) =
           [[airPoint ''unknown'' ts h t, accelerometerPoint ''unknown'' ts x y z]]"
  unfolding postSensorData1_def
  by (simp add: assms inlineParse_wellFormed [OF assms(5)] Let_def json_status_ok writes_ops)
     blast

text \<open>
  C5. A submission that reaches the multipart branch without a \<open>node\<close> field does not
  get the tag \<open>unknown\<close>: \<open>r.MultipartForm.Value["node"][0]\<close> indexes the nil slice and
  panics before the default is applied, and no record is built.
\<close>

theorem multipart_missing_node_panics:
  "postSensorData2 ParseFloat WritePoint
     \<lparr>Method = ''POST'', URL_Path = ''/api'', Header = [], Body_nil = False,
      ParseForm_err = Some (errorString ''invalid URL escape''), Form = Map.empty,
      MultipartForm = Some [''data'' \<mapsto> [''1700000000|55|21|1,2,9'']]\<rparr>
     \<lparr>status = None, body = [], logged = [], writes = []\<rparr> =
   Panic (IndexOutOfRange 0 0)
     \<lparr>status = None, body = [], logged = [Println [H []]], writes = []\<rparr>"
  by (simp add: postSensorData2_def formFields_def Value_def index_def Let_def
        log_Println_def)


text \<open>
  C6. When the payload parses, the answer is status 200 with the body
  \<open>{"status":"ok"}\<close> whatever the write call returns; an error it returns is the last
  entry of the log and nothing else.
\<close>

theorem write_failure_not_surfaced:
  assumes "URL_Path r = ''/api''" "Method r = ''POST''"
    and "formFields r = Fields data0 node0"
    and "wellFormed (Replace replacer data0)"
    and "status st = None" "body st = []"
  shows \<open>\<exists>st'. postSensorData2 ParseFloat WritePoint r st = Return st' \<and>
           status st' = Some StatusOK \<and> body st' = ''{"status":"ok"}'' \<and>
           (\<forall>e. WritePoint (last (writes st')) = Some e \<longrightarrow>
                  last (logged st') = Println [E e])\<close>
proof -
  obtain ts h t x y z err lg where
    p: "parseData ParseFloat (Replace replacer data0) (logged st @ [Println [H (Header r)]]) =
          ((ts, h, t, x, y, z, err), lg)"
    by (metis prod_cases7 surj_pair)
  note out = postSensorData2_wellFormed [OF assms(1-4) p, of WritePoint, THEN conjunct2]
  show ?thesis
    unfolding out
    by (simp add: response_ops writes_ops assms(5,6))
       (simp add: Write_def WriteHeader_def callWritePoint_def log_Println_def Let_def)
qed


theorem write_failure_not_surfaced_witness:
  \<open>URL_Path sampleRequest = ''/api'' \<and> Method sampleRequest = ''POST'' \<and>
   formFields sampleRequest = Fields ''1700000000|55 |21|1,2,9'' [] \<and>
   wellFormed (Replace replacer ''1700000000|55 |21|1,2,9'') \<and>
   status (final (postSensorData2 ParseInt (\<lambda>ps. Some (errorString ''timeout''))
      sampleRequest fresh)) = Some StatusOK \<and>
   body (final (postSensorData2 ParseInt (\<lambda>ps. Some (errorString ''timeout''))
      sampleRequest fresh)) = ''{"status":"ok"}'' \<and>
   last (logged (final (postSensorData2 ParseInt (\<lambda>ps. Some (errorString ''timeout''))
      sampleRequest fresh))) = Println [E (errorString ''timeout'')]\<close>
proof -
  from write_failure_not_surfaced
    [OF sampleRequest_facts(1,2,3,5) fresh_facts(1,2),
     of ParseInt "\<lambda>ps. Some (errorString ''timeout'')"]
  obtain st' where
    \<open>postSensorData2 ParseInt (\<lambda>ps. Some (errorString ''timeout'')) sampleRequest fresh =
       Return st'\<close>
    \<open>status st' = Some StatusOK\<close> \<open>body st' = ''{"status":"ok"}''\<close>
    \<open>last (logged st') = Println [E (errorString ''timeout'')]\<close>
    by blast
  then show ?thesis using sampleRequest_facts by simp
qed

text \<open>
  C7. A request makes no write call, or one write call with exactly two points. For a
  submission whose fields were read: no call when parsing fails; when it succeeds one
  call with the \<open>air\<close> point (humidity, temperature, timestamp) and the
  \<open>accelerometer\<close> point (x, y, z, timestamp), both tagged with the node.
\<close>

theorem zero_or_two_records:
  assumes "writes st = []"
  shows "(writes (final (postSensorData2 ParseFloat WritePoint r st)) = [] \<or>
          (\<exists>p1 p2. writes (final (postSensorData2 ParseFloat WritePoint r st)) = [[p1, p2]])) \<and>
         (URL_Path r = ''/api'' \<and> Method r = ''POST'' \<and> formFields r = Fields data0 node0 \<longrightarrow>
          writes (final (postSensorData2 ParseFloat WritePoint r st)) =
            (case fst (parseData ParseFloat (Replace replacer data0) []) of
               (ts, h, t, x, y, z, err) \<Rightarrow>
                 if err = None then
                   [[\<lparr>Measurement = ''air'',
                      Tags = [(''location'', if node0 = [] then ''unknown'' else node0)],
                      Fields = [(''humidity'', h), (''temperature'', t)], Time = ts\<rparr>,
                     \<lparr>Measurement = ''accelerometer'',
                      Tags = [(''location'', if node0 = [] then ''unknown'' else node0)],
                      Fields = [(''x'', x), (''y'', y), (''z'', z)], Time = ts\<rparr>]]
                 else []))"
proof -
  let ?out = "postSensorData2 ParseFloat WritePoint r st"
  have fields: "writes (final ?out) =
            (case fst (parseData ParseFloat (Replace replacer data0) []) of
               (ts, h, t, x, y, z, err) \<Rightarrow>
                 if err = None then
                   [[\<lparr>Measurement = ''air'',
                      Tags = [(''location'', if node0 = [] then ''unknown'' else node0)],
                      Fields = [(''humidity'', h), (''temperature'', t)], Time = ts\<rparr>,
                     \<lparr>Measurement = ''accelerometer'',
                      Tags = [(''location'', if node0 = [] then ''unknown'' else node0)],
                      Fields = [(''x'', x), (''y'', y), (''z'', z)], Time = ts\<rparr>]]
                 else [])"
    if a: "URL_Path r = ''/api''" "Method r = ''POST''" "formFields r = Fields data0 node0"
    for data0 node0
  proof -
    obtain ts h t x y z err lg where
      p: "parseData ParseFloat (Replace replacer data0)
            (logged st @ [Println [H (Header r)]]) = ((ts, h, t, x, y, z, err), lg)"
      by (metis prod_cases7 surj_pair)
    then have q: "fst (parseData ParseFloat (Replace replacer data0) []) =
        (ts, h, t, x, y, z, err)"
      using parseData_log_irrelevant
        [of ParseFloat "Replace replacer data0" "logged st @ [Println [H (Header r)]]"]
      by simp
    show ?thesis
    proof (cases "wellFormed (Replace replacer data0)")
      case True
      from postSensorData2_wellFormed [OF a True p, of WritePoint]
      show ?thesis unfolding q by (simp add: writes_ops assms points_unfold)
    next
      case False
      from parseData_malformed [OF False, of ParseFloat "[]"]
      have "err \<noteq> None" unfolding q by (simp add: errOf_def)
      then show ?thesis
        unfolding q postSensorData2_malformed [OF a False p]
        by (simp add: writes_ops assms)
    qed
  qed
  have any: "writes (final ?out) = [] \<or> (\<exists>p1 p2. writes (final ?out) = [[p1, p2]])"
  proof (cases "URL_Path r = ''/api'' \<and> Method r = ''POST''")
    case False
    then show ?thesis
      by (auto simp: postSensorData2_def writes_ops assms)
  next
    case True
    show ?thesis
    proof (cases "formFields r")
      case (Fields data0 node0)
      from fields [OF _ _ Fields] True show ?thesis
        by (auto split: prod.splits if_splits)
    next
      case (FormError e)
      with True show ?thesis
        by (simp add: postSensorData2_def Let_def writes_ops assms)
    next
      case (FormPanic p)
      with True show ?thesis
        by (simp add: postSensorData2_def Let_def writes_ops assms)
    qed
  qed
  from any fields show ?thesis
    by blast
qed

lemma sample_parse:
  "fst (parseData ParseInt ''1700000000|55|21|1,2,9'' []) =
     (1700000000, 55, 21, 1, 2, 9, None)"
  by (simp add: parseData_def index_def Let_def
        ParseInt_def ParseUint_def is_digit_def cutoff_def maxUint64_def)

theorem zero_or_two_records_witness:
  "writes (fresh :: int state) = [] \<and>
   URL_Path sampleRequest = ''/api'' \<and> Method sampleRequest = ''POST'' \<and>
   formFields sampleRequest = Fields ''1700000000|55 |21|1,2,9'' [] \<and>
   writes (final (postSensorData2 ParseInt (\<lambda>ps. None) sampleRequest fresh)) =
     [[\<lparr>Measurement = ''air'', Tags = [(''location'', ''unknown'')],
        Fields = [(''humidity'', 55), (''temperature'', 21)], Time = 1700000000\<rparr>,
       \<lparr>Measurement = ''accelerometer'', Tags = [(''location'', ''unknown'')],
        Fields = [(''x'', 1), (''y'', 2), (''z'', 9)], Time = 1700000000\<rparr>]]"
  using zero_or_two_records
    [OF fresh_facts(4), of ParseInt "\<lambda>ps. None" sampleRequest
       "''1700000000|55 |21|1,2,9''" "[]"]
  by (simp add: sampleRequest_facts fresh_facts sample_parse)

subsection \<open>Routing\<close>

lemma postSensorData2_ok_response:
  assumes "URL_Path r = ''/api''" "Method r = ''POST''"
    and "formFields r = Fields data0 node0"
    and "wellFormed (Replace replacer data0)"
    and "status st = None" "body st = []"
  shows \<open>\<exists>st'. postSensorData2 ParseFloat WritePoint r st = Return st' \<and>
           status st' = Some StatusOK \<and> body st' = ''{"status":"ok"}''\<close>
proof -
  obtain ts h t x y z err lg where
    p: "parseData ParseFloat (Replace replacer data0) (logged st @ [Println [H (Header r)]]) =
          ((ts, h, t, x, y, z, err), lg)"
    by (metis prod_cases7 surj_pair)
  note out = postSensorData2_wellFormed [OF assms(1-4) p, of WritePoint, THEN conjunct2]
  show ?thesis
    unfolding out by (simp add: response_ops assms(5,6))
qed

text \<open>
  At the handlers, for every request: \<open>GET /\<close> is answered with 200 and \<open>Welcome\<close>;
  any other path at the welcome handler, and any other method on \<open>/\<close>, with 404; any
  method but POST on \<open>/api\<close> with 404; \<open>POST /api\<close> with 200 and \<open>{"status":"ok"}\<close> when
  the handler reads the fields and the payload parses.
\<close>

lemma routing_facts:
  assumes "status st = None" "body st = []"
  shows \<open>(URL_Path r = ''/'' \<and> Method r = ''GET'' \<longrightarrow>
            (\<exists>st'. getRoot r st = Return st' \<and>
               status st' = Some StatusOK \<and> body st' = ''Welcome'')) \<and>
         (URL_Path r \<noteq> ''/'' \<longrightarrow>
            (\<exists>st'. getRoot r st = Return st' \<and> status st' = Some StatusNotFound)) \<and>
         (URL_Path r = ''/'' \<and> Method r \<noteq> ''GET'' \<longrightarrow>
            (\<exists>st'. getRoot r st = Return st' \<and> status st' = Some StatusNotFound)) \<and>
         (URL_Path r = ''/api'' \<and> Method r \<noteq> ''POST'' \<longrightarrow>
            (\<exists>st'. postSensorData2 ParseFloat WritePoint r st = Return st' \<and>
               status st' = Some StatusNotFound)) \<and>
         (URL_Path r = ''/api'' \<and> Method r = ''POST'' \<and>
          formFields r = Fields data0 node0 \<and> wellFormed (Replace replacer data0) \<longrightarrow>
            (\<exists>st'. postSensorData2 ParseFloat WritePoint r st = Return st' \<and>
               status st' = Some StatusOK \<and> body st' = ''{"status":"ok"}''))\<close>
proof -
  have root_ok: "\<exists>st'. getRoot r st = Return st' \<and>
               status st' = Some StatusOK \<and> body st' = ''Welcome''"
    if "URL_Path r = ''/''" "Method r = ''GET''"
    using that by (simp add: getRoot_def response_ops assms)
  have other_path: "\<exists>st'. getRoot r st = Return st' \<and> status st' = Some StatusNotFound"
    if "URL_Path r \<noteq> ''/''"
    using that by (simp add: getRoot_def response_ops assms)
  have other_method: "\<exists>st'. getRoot r st = Return st' \<and> status st' = Some StatusNotFound"
    if "URL_Path r = ''/''" "Method r \<noteq> ''GET''"
    using that by (simp add: getRoot_def response_ops assms)
  have api_method: "\<exists>st'. postSensorData2 ParseFloat WritePoint r st = Return st' \<and>
               status st' = Some StatusNotFound"
    if "URL_Path r = ''/api''" "Method r \<noteq> ''POST''"
    using that by (simp add: postSensorData2_def response_ops assms)
  have post: \<open>\<exists>st'. postSensorData2 ParseFloat WritePoint r st = Return st' \<and>
               status st' = Some StatusOK \<and> body st' = ''{"status":"ok"}''\<close>
    if "URL_Path r = ''/api''" "Method r = ''POST''"
       "formFields r = Fields data0 node0" "wellFormed (Replace replacer data0)"
    using postSensorData2_ok_response [OF that assms] .
  from root_ok other_path other_method api_method post show ?thesis
    by blast
qed

lemma multipartRequest_fields:
  "formFields (multipartRequest None Map.empty form) = Fields [] []"
  by (simp add: multipartRequest_def formFields_def FormValue_def Value_def)

lemma empty_payload_malformed: "\<not> wellFormed (Replace replacer [])"
  by (simp add: wellFormed_def Replace_def)

text \<open>
  C8. \<open>POST /api\<close> with a valid body in multipart encoding is not answered with 200.
  \<open>ParseForm\<close> succeeds without reading the body, so the multipart branch is not
  taken and \<open>FormValue\<close> finds no \<open>data\<close>: the payload is empty, parsing fails and the
  answer is 400 with no write call. The other routing answers hold
  (\<open>routing_facts\<close>).
\<close>

theorem multipart_body_rejected:
  "\<exists>st'. postSensorData2 ParseFloat WritePoint
           (multipartRequest None Map.empty
              [''data'' \<mapsto> [''1700000000|55|21|1,2,9''], ''node'' \<mapsto> [''n1'']])
           fresh = Return st' \<and>
         status st' = Some StatusBadRequest \<and> body st' = ''400 - Bad request data'' \<and>
         writes st' = []"
  using postSensorData2_bad_payload
    [OF _ _ multipartRequest_fields empty_payload_malformed fresh_facts(1),
     of "[''data'' \<mapsto> [''1700000000|55|21|1,2,9''], ''node'' \<mapsto> [''n1'']]"
        ParseFloat WritePoint]
  by (simp add: multipartRequest_def fresh_facts)

end
